theory Spec2Isabelle
  imports Complex_Main "HOL-Library.AList"
begin

section \<open>Python values, exceptions and the built-ins the bots use\<close>

text \<open>
  Both scripts read order books that come out of \<^verbatim>\<open>r.json()\<close>: nested dicts and lists
  whose leaves are strings, numbers, booleans or null. Python floats are modelled as
  reals (exact arithmetic; no NaN, no rounding). What \<^verbatim>\<open>float()\<close> makes of a string is a
  parameter of every function that parses prices: \<open>None\<close> stands for ValueError.
  Exceptions are values: a function that can raise returns \<open>py_error + 'a\<close>.
  A dict is an association list in insertion order, read with \<open>map_of\<close> and written
  with \<open>AList.update\<close>, which rewrites a key where it stands and appends a new one, as
  Python does. Log lines, display labels and the sleeps between requests are left out.
\<close>

datatype py_error = TypeError | KeyError | ValueError | AttributeError | ZeroDivisionError

datatype pyval =
    PNone
  | PBool bool
  | PNum real
  | PStr string
  | PList "pyval list"
  | PDict "(string \<times> pyval) list"

type_synonym book = "(string \<times> pyval) list"

type_synonym str_float = "string \<Rightarrow> real option"

definition ebind :: "'e + 'a \<Rightarrow> ('a \<Rightarrow> 'e + 'b) \<Rightarrow> 'e + 'b" where
  "ebind m f = (case m of Inl e \<Rightarrow> Inl e | Inr x \<Rightarrow> f x)"

fun emap :: "('a \<Rightarrow> 'e + 'b) \<Rightarrow> 'a list \<Rightarrow> 'e + 'b list" where
  "emap f [] = Inr []"
| "emap f (x # xs) =
     (case f x of
        Inl e \<Rightarrow> Inl e
      | Inr y \<Rightarrow> (case emap f xs of Inl e \<Rightarrow> Inl e | Inr ys \<Rightarrow> Inr (y # ys)))"

text \<open>Truth value of an object: \<^verbatim>\<open>not x\<close> is \<open>\<not> py_truthy x\<close>.\<close>

fun py_truthy :: "pyval \<Rightarrow> bool" where
  "py_truthy PNone = False"
| "py_truthy (PBool b) = b"
| "py_truthy (PNum r) = (r \<noteq> 0)"
| "py_truthy (PStr s) = (s \<noteq> [])"
| "py_truthy (PList xs) = (xs \<noteq> [])"
| "py_truthy (PDict d) = (d \<noteq> [])"

text \<open>\<^verbatim>\<open>len(x)\<close>: TypeError on an object without a length.\<close>

fun py_len :: "pyval \<Rightarrow> py_error + nat" where
  "py_len (PList xs) = Inr (length xs)"
| "py_len (PStr s) = Inr (length s)"
| "py_len (PDict d) = Inr (length d)"
| "py_len PNone = Inl TypeError"
| "py_len (PBool b) = Inl TypeError"
| "py_len (PNum r) = Inl TypeError"

text \<open>
  \<^verbatim>\<open>for a in x\<close>: a list yields its elements, a string its characters, a dict its keys;
  anything else is not iterable.
\<close>

fun py_iter :: "pyval \<Rightarrow> py_error + pyval list" where
  "py_iter (PList xs) = Inr xs"
| "py_iter (PStr s) = Inr (map (\<lambda>c. PStr [c]) s)"
| "py_iter (PDict d) = Inr (map (\<lambda>kv. PStr (fst kv)) d)"
| "py_iter PNone = Inl TypeError"
| "py_iter (PBool b) = Inl TypeError"
| "py_iter (PNum r) = Inl TypeError"

text \<open>\<^verbatim>\<open>a["key"]\<close>: KeyError on a dict without the key, TypeError on anything else.\<close>

fun py_getitem :: "pyval \<Rightarrow> string \<Rightarrow> py_error + pyval" where
  "py_getitem (PDict d) k = (case map_of d k of None \<Rightarrow> Inl KeyError | Some v \<Rightarrow> Inr v)"
| "py_getitem PNone k = Inl TypeError"
| "py_getitem (PBool b) k = Inl TypeError"
| "py_getitem (PNum r) k = Inl TypeError"
| "py_getitem (PStr s) k = Inl TypeError"
| "py_getitem (PList xs) k = Inl TypeError"

text \<open>\<^verbatim>\<open>d.get(key, default)\<close> on a dict, and on an arbitrary object (AttributeError).\<close>

definition dict_get :: "book \<Rightarrow> string \<Rightarrow> pyval \<Rightarrow> pyval" where
  "dict_get d k dflt = (case map_of d k of None \<Rightarrow> dflt | Some v \<Rightarrow> v)"

fun py_get :: "pyval \<Rightarrow> string \<Rightarrow> pyval \<Rightarrow> py_error + pyval" where
  "py_get (PDict d) k dflt = Inr (dict_get d k dflt)"
| "py_get PNone k dflt = Inl AttributeError"
| "py_get (PBool b) k dflt = Inl AttributeError"
| "py_get (PNum r) k dflt = Inl AttributeError"
| "py_get (PStr s) k dflt = Inl AttributeError"
| "py_get (PList xs) k dflt = Inl AttributeError"

text \<open>\<^verbatim>\<open>float(x)\<close>.\<close>

fun py_float :: "str_float \<Rightarrow> pyval \<Rightarrow> py_error + real" where
  "py_float flt (PNum r) = Inr r"
| "py_float flt (PBool b) = Inr (if b then 1 else 0)"
| "py_float flt (PStr s) = (case flt s of None \<Rightarrow> Inl ValueError | Some r \<Rightarrow> Inr r)"
| "py_float flt PNone = Inl TypeError"
| "py_float flt (PList xs) = Inl TypeError"
| "py_float flt (PDict d) = Inl TypeError"

text \<open>\<^verbatim>\<open>min(xs)\<close> and \<^verbatim>\<open>max(xs)\<close>: ValueError on an empty sequence.\<close>

fun py_min :: "real list \<Rightarrow> py_error + real" where
  "py_min [] = Inl ValueError"
| "py_min (x # xs) = Inr (fold min xs x)"

fun py_max :: "real list \<Rightarrow> py_error + real" where
  "py_max [] = Inl ValueError"
| "py_max (x # xs) = Inr (fold max xs x)"

text \<open>
  \<^verbatim>\<open>max(xs, key=f)\<close>: the first element whose key is maximal (a later element replaces
  the best so far only when its key is strictly greater).
\<close>

fun py_max_key :: "('a \<Rightarrow> real) \<Rightarrow> 'a list \<Rightarrow> py_error + 'a" where
  "py_max_key f [] = Inl ValueError"
| "py_max_key f (x # xs) = Inr (fold (\<lambda>y best. if f best < f y then y else best) xs x)"

section \<open>crypto5m\_bot: parameters\<close>

record params =
  clob_fee_pct :: real
  gas_merge_usd :: real
  swap_spread_pct :: real
  buffer_bps :: real
  arb_threshold_bps :: real
  snipe_threshold :: real
  mispriced_ratio :: real
  mispriced_min_size :: real
  min_trade_usd :: real
  max_trade_usd :: real
  slippage_pct :: real
  refresh_interval :: real
  last_15s_window :: real

definition DEFAULT_PARAMS :: params where
  "DEFAULT_PARAMS =
     \<lparr> clob_fee_pct = 0.00075, gas_merge_usd = 0.50, swap_spread_pct = 0.0002,
       buffer_bps = 10, arb_threshold_bps = 20, snipe_threshold = 0.05,
       mispriced_ratio = 0.50, mispriced_min_size = 10, min_trade_usd = 50,
       max_trade_usd = 2000, slippage_pct = 0.3, refresh_interval = 3,
       last_15s_window = 15 \<rparr>"

section \<open>Order book accessors\<close>

text \<open>
  crypto5m\_bot, \<^verbatim>\<open>best_ask_price\<close> and \<^verbatim>\<open>best_bid_price\<close>. The generator
  \<^verbatim>\<open>float(a["price"]) for a in asks\<close> runs inside the \<^verbatim>\<open>try\<close>; every exception it or
  \<^verbatim>\<open>min\<close> raises there is caught and turned into \<^verbatim>\<open>None\<close>.
\<close>

definition level_prices :: "str_float \<Rightarrow> pyval \<Rightarrow> py_error + real list" where
  "level_prices flt levels =
     ebind (py_iter levels) (emap (\<lambda>a. ebind (py_getitem a ''price'') (py_float flt)))"

definition best_ask_price :: "str_float \<Rightarrow> book option \<Rightarrow> py_error + real option" where
  "best_ask_price flt ob =
     (case ob of
        None \<Rightarrow> Inr None
      | Some d \<Rightarrow>
          if d = [] then Inr None
          else let asks = dict_get d ''asks'' (PList [])
               in if \<not> py_truthy asks then Inr None
                  else (case ebind (level_prices flt asks) py_min of
                          Inl e \<Rightarrow> Inr None
                        | Inr m \<Rightarrow> Inr (Some m)))"

definition best_bid_price :: "str_float \<Rightarrow> book option \<Rightarrow> py_error + real option" where
  "best_bid_price flt ob =
     (case ob of
        None \<Rightarrow> Inr None
      | Some d \<Rightarrow>
          if d = [] then Inr None
          else let bids = dict_get d ''bids'' (PList [])
               in if \<not> py_truthy bids then Inr None
                  else (case ebind (level_prices flt bids) py_max of
                          Inl e \<Rightarrow> Inr None
                        | Inr m \<Rightarrow> Inr (Some m)))"

definition effective_buy_price :: "str_float \<Rightarrow> book option \<Rightarrow> py_error + real option" where
  "effective_buy_price flt ob = best_ask_price flt ob"

text \<open>
  polymarketGPT, \<^verbatim>\<open>best_ask\<close> and \<^verbatim>\<open>best_bid\<close>. The \<^verbatim>\<open>for\<close> statement itself is outside
  the \<^verbatim>\<open>try\<close>; only the parsing of one level is inside it, and a level that fails to
  parse is skipped. The inner \<^verbatim>\<open>o.get("p", 0)\<close> is evaluated before the outer \<^verbatim>\<open>get\<close>.
\<close>

definition level_price_size :: "str_float \<Rightarrow> pyval \<Rightarrow> py_error + real \<times> real" where
  "level_price_size flt lv =
     ebind (py_get lv ''p'' (PNum 0)) (\<lambda>dp.
     ebind (py_get lv ''price'' dp) (\<lambda>pv.
     ebind (py_float flt pv) (\<lambda>p.
     ebind (py_get lv ''s'' (PNum 0)) (\<lambda>ds.
     ebind (py_get lv ''size'' ds) (\<lambda>sv.
     ebind (py_float flt sv) (\<lambda>s. Inr (p, s)))))))"

fun usable_prices :: "str_float \<Rightarrow> pyval list \<Rightarrow> real list" where
  "usable_prices flt [] = []"
| "usable_prices flt (lv # lvs) =
     (case level_price_size flt lv of
        Inl e \<Rightarrow> usable_prices flt lvs
      | Inr (p, s) \<Rightarrow>
          if p > 0 \<and> s > 0 then p # usable_prices flt lvs else usable_prices flt lvs)"

definition best_ask :: "str_float \<Rightarrow> book option \<Rightarrow> py_error + real option" where
  "best_ask flt ob =
     (case ob of
        None \<Rightarrow> Inr None
      | Some d \<Rightarrow>
          if d = [] then Inr None
          else ebind (py_iter (dict_get d ''asks'' (PList []))) (\<lambda>levels.
                 let prices = usable_prices flt levels
                 in if prices \<noteq> [] then ebind (py_min prices) (\<lambda>m. Inr (Some m))
                    else Inr None))"

definition best_bid :: "str_float \<Rightarrow> book option \<Rightarrow> py_error + real option" where
  "best_bid flt ob =
     (case ob of
        None \<Rightarrow> Inr None
      | Some d \<Rightarrow>
          if d = [] then Inr None
          else ebind (py_iter (dict_get d ''bids'' (PList []))) (\<lambda>levels.
                 let prices = usable_prices flt levels
                 in if prices \<noteq> [] then ebind (py_max prices) (\<lambda>m. Inr (Some m))
                    else Inr None))"

section \<open>Cost model\<close>

text \<open>crypto5m\_bot, \<^verbatim>\<open>total_fees\<close> and \<^verbatim>\<open>compute_arb_edge\<close>.\<close>

definition total_fees :: "real \<Rightarrow> params \<Rightarrow> real" where
  "total_fees trade_size_usd p =
     (let clob = clob_fee_pct p * 2;
          gas = (if trade_size_usd > 0 then gas_merge_usd p / trade_size_usd else 0);
          swap = swap_spread_pct p * 2;
          buf = buffer_bps p / 10000
      in clob + gas + swap + buf)"

definition compute_arb_edge :: "real \<Rightarrow> real \<Rightarrow> real \<Rightarrow> params \<Rightarrow> real \<times> real" where
  "compute_arb_edge yes_cost no_cost trade_size p =
     (let raw = 1 - (yes_cost + no_cost);
          fees = total_fees trade_size p;
          net = raw - fees
      in (raw, net))"

text \<open>polymarketGPT, \<^verbatim>\<open>compute_edge\<close> (its keyword arguments in the order of the signature).\<close>

definition compute_edge ::
  "real \<Rightarrow> real \<Rightarrow> real \<Rightarrow> real \<Rightarrow> real \<Rightarrow> real \<Rightarrow> real \<Rightarrow> real \<times> real" where
  "compute_edge buy_yes buy_no clob_fee gas_usd swap_spread buffer_bps_arg trade_size_usd =
     (let long_cost = buy_yes + buy_no;
          raw_edge = 1 - long_cost;
          fees_clob = clob_fee * 2;
          gas_frac = (if trade_size_usd > 0 then gas_usd / trade_size_usd else 0);
          buffer = buffer_bps_arg / 10000;
          net_edge = raw_edge - fees_clob - gas_frac - swap_spread - buffer
      in (raw_edge, net_edge))"

section \<open>Opportunities and the arbitrage detector\<close>

text \<open>
  An opportunity is a dict whose keys depend on the strategy; the record has every key
  the three detectors write (the display label apart), and a detector leaves the keys
  of the other strategies at \<open>no_opp\<close>'s values.
\<close>

record opportunity =
  o_strategy :: string
  o_crypto :: string
  o_token :: string
  o_yes_price :: real
  o_no_price :: real
  o_total :: real
  o_raw_edge :: real
  o_net_edge :: real
  o_price :: real
  o_edge :: real
  o_time_left :: real
  o_size :: real
  o_cluster_price :: real
  o_discount_pct :: real
  o_est_profit :: real

definition no_opp :: opportunity where
  "no_opp =
     \<lparr> o_strategy = [], o_crypto = [], o_token = [], o_yes_price = 0, o_no_price = 0,
       o_total = 0, o_raw_edge = 0, o_net_edge = 0, o_price = 0, o_edge = 0,
       o_time_left = 0, o_size = 0, o_cluster_price = 0, o_discount_pct = 0,
       o_est_profit = 0 \<rparr>"

definition check_arb_strategy ::
  "str_float \<Rightarrow> string \<Rightarrow> book option \<Rightarrow> book option \<Rightarrow> params
     \<Rightarrow> py_error + opportunity option" where
  "check_arb_strategy flt crypto yes_ob no_ob p =
     ebind (effective_buy_price flt yes_ob) (\<lambda>yes_ask.
     ebind (effective_buy_price flt no_ob) (\<lambda>no_ask.
       case (yes_ask, no_ask) of
         (None, _) \<Rightarrow> Inr None
       | (_, None) \<Rightarrow> Inr None
       | (Some ya, Some na) \<Rightarrow>
           if ya \<le> 0 \<or> na \<le> 0 then Inr None
           else let trade_size = (min_trade_usd p + max_trade_usd p) / 2;
                    (raw_edge, net_edge) = compute_arb_edge ya na trade_size p;
                    threshold = arb_threshold_bps p / 10000
                in if net_edge < threshold then Inr None
                   else Inr (Some (no_opp\<lparr> o_strategy := ''arb'', o_crypto := crypto,
                                   o_yes_price := ya, o_no_price := na,
                                   o_total := ya + na, o_raw_edge := raw_edge,
                                   o_net_edge := net_edge \<rparr>))))"

section \<open>The snipe detector\<close>

record candidate =
  c_token :: string
  c_price :: real
  c_edge :: real
  c_confidence :: real

text \<open>
  crypto5m\_bot, \<^verbatim>\<open>check_snipe_strategy\<close>. The division by \<^verbatim>\<open>p["max_trade_usd"]\<close> is
  unguarded. The YES branch also calls \<^verbatim>\<open>best_bid_price\<close>, whose result is not used.
\<close>

definition check_snipe_strategy ::
  "str_float \<Rightarrow> string \<Rightarrow> book option \<Rightarrow> book option \<Rightarrow> real \<Rightarrow> params
     \<Rightarrow> py_error + opportunity option" where
  "check_snipe_strategy flt crypto yes_ob no_ob time_left p =
     (let window = last_15s_window p
      in if time_left > window then Inr None
         else
           ebind (effective_buy_price flt yes_ob) (\<lambda>yes_ask.
           ebind (effective_buy_price flt no_ob) (\<lambda>no_ask.
             if max_trade_usd p = 0 then Inl ZeroDivisionError
             else
               let fees = clob_fee_pct p + gas_merge_usd p / max_trade_usd p
                            + swap_spread_pct p + buffer_bps p / 10000
               in
               ebind (case yes_ask of
                        None \<Rightarrow> Inr []
                      | Some ya \<Rightarrow>
                          if ya > 0 \<and> 1 - ya - fees \<ge> snipe_threshold p
                          then ebind (best_bid_price flt yes_ob) (\<lambda>yes_bid.
                                 Inr [\<lparr> c_token = ''YES'', c_price = ya,
                                        c_edge = 1 - ya - fees, c_confidence = ya \<rparr>])
                          else Inr []) (\<lambda>cands_yes.
               let cands_no =
                     (case no_ask of
                        None \<Rightarrow> []
                      | Some na \<Rightarrow>
                          if na > 0 \<and> 1 - na - fees \<ge> snipe_threshold p
                          then [\<lparr> c_token = ''NO'', c_price = na,
                                  c_edge = 1 - na - fees, c_confidence = na \<rparr>]
                          else []);
                   candidates = cands_yes @ cands_no
               in if candidates = [] then Inr None
                  else ebind (py_max_key c_confidence candidates) (\<lambda>best.
                         Inr (Some (no_opp\<lparr> o_strategy := ''snipe'', o_crypto := crypto,
                                         o_token := c_token best, o_price := c_price best,
                                         o_edge := c_edge best,
                                         o_time_left := time_left \<rparr>)))))))"

section \<open>The mispriced-order detector\<close>

record mispriced =
  m_price :: real
  m_size :: real
  m_cluster_price :: real
  m_discount_pct :: real
  m_est_profit_per_share :: real

text \<open>
  The comprehension \<^verbatim>\<open>[(float(a["price"]), float(a["size"])) for a in asks]\<close>, which
  \<^verbatim>\<open>find_mispriced_orders\<close> runs inside its \<^verbatim>\<open>try\<close>.
\<close>

definition ask_entries :: "str_float \<Rightarrow> pyval \<Rightarrow> py_error + (real \<times> real) list" where
  "ask_entries flt asks =
     ebind (py_iter asks) (emap (\<lambda>a.
       ebind (py_getitem a ''price'') (\<lambda>pv.
       ebind (py_float flt pv) (\<lambda>p.
       ebind (py_getitem a ''size'') (\<lambda>sv.
       ebind (py_float flt sv) (\<lambda>s. Inr (p, s)))))))"

text \<open>
  The dict \<^verbatim>\<open>price_vol\<close>, in insertion order: \<^verbatim>\<open>price_vol[p] = price_vol.get(p, 0) + s\<close>
  rewrites the value of a key that is present where it stands and appends a new key.
\<close>

definition price_vol_get :: "(real \<times> real) list \<Rightarrow> real \<Rightarrow> real" where
  "price_vol_get pv k = (case map_of pv k of None \<Rightarrow> 0 | Some v \<Rightarrow> v)"

definition price_vol_of :: "(real \<times> real) list \<Rightarrow> (real \<times> real) list" where
  "price_vol_of entries =
     fold (\<lambda>(p, s) pv. AList.update p (price_vol_get pv p + s) pv) entries []"

text \<open>\<^verbatim>\<open>cluster_price = max(price_vol, key=price_vol.get)\<close>, over the keys in dict order.\<close>

definition cluster_price :: "(real \<times> real) list \<Rightarrow> py_error + real" where
  "cluster_price entries =
     (let price_vol = price_vol_of entries
      in py_max_key (price_vol_get price_vol) (map fst price_vol))"

text \<open>The flagging loop; \<^verbatim>\<open>(cluster_price - p_val) / cluster_price\<close> is unguarded.\<close>

fun flag_entries :: "real \<Rightarrow> real \<Rightarrow> real \<Rightarrow> (real \<times> real) list \<Rightarrow> py_error + mispriced list" where
  "flag_entries c ratio_threshold min_size [] = Inr []"
| "flag_entries c ratio_threshold min_size ((p_val, s_val) # es) =
     (if s_val < min_size then flag_entries c ratio_threshold min_size es
      else if p_val \<le> c * ratio_threshold \<and> p_val < c - 0.10
      then (if c = 0 then Inl ZeroDivisionError
            else let discount = (c - p_val) / c;
                     est_profit = c - p_val
                 in ebind (flag_entries c ratio_threshold min_size es) (\<lambda>rest.
                      Inr (\<lparr> m_price = p_val, m_size = s_val, m_cluster_price = c,
                             m_discount_pct = discount * 100,
                             m_est_profit_per_share = est_profit \<rparr> # rest)))
      else flag_entries c ratio_threshold min_size es)"

text \<open>
  crypto5m\_bot, \<^verbatim>\<open>find_mispriced_orders\<close>. \<^verbatim>\<open>sorted\<close> is stable, as \<open>sort_key\<close> is.
\<close>

definition find_mispriced_orders ::
  "str_float \<Rightarrow> pyval \<Rightarrow> real \<Rightarrow> real \<Rightarrow> py_error + mispriced list" where
  "find_mispriced_orders flt asks ratio_threshold min_size =
     (if \<not> py_truthy asks then Inr []
      else ebind (py_len asks) (\<lambda>n.
        if n < 2 then Inr []
        else (case ask_entries flt asks of
                Inl e \<Rightarrow> Inr []
              | Inr entries \<Rightarrow>
                  ebind (cluster_price entries) (\<lambda>c.
                  ebind (flag_entries c ratio_threshold min_size entries) (\<lambda>flagged.
                    Inr (sort_key m_price flagged))))))"

definition mispriced_side ::
  "str_float \<Rightarrow> string \<Rightarrow> params \<Rightarrow> string \<Rightarrow> book option \<Rightarrow> py_error + opportunity list" where
  "mispriced_side flt crypto p token_label ob =
     (case ob of
        None \<Rightarrow> Inr []
      | Some d \<Rightarrow>
          if d = [] then Inr []
          else ebind (find_mispriced_orders flt (dict_get d ''asks'' (PList []))
                        (mispriced_ratio p) (mispriced_min_size p)) (\<lambda>mispx.
                 Inr (map (\<lambda>m. no_opp\<lparr> o_strategy := ''mispriced'', o_crypto := crypto,
                                         o_token := token_label, o_price := m_price m,
                                         o_size := m_size m,
                                         o_cluster_price := m_cluster_price m,
                                         o_discount_pct := m_discount_pct m,
                                         o_est_profit := m_est_profit_per_share m \<rparr>)
                          mispx)))"

definition check_mispriced_strategy ::
  "str_float \<Rightarrow> string \<Rightarrow> book option \<Rightarrow> book option \<Rightarrow> params
     \<Rightarrow> py_error + opportunity list" where
  "check_mispriced_strategy flt crypto yes_ob no_ob p =
     ebind (mispriced_side flt crypto p ''YES'' yes_ob) (\<lambda>opps_yes.
     ebind (mispriced_side flt crypto p ''NO'' no_ob) (\<lambda>opps_no.
       Inr (opps_yes @ opps_no)))"

section \<open>Execution simulation\<close>







section \<open>Market rotation and the scan\<close>

definition CRYPTO_MARKETS :: "(string \<times> string) list" where
  "CRYPTO_MARKETS = [(''BTC'', ''btc''), (''ETH'', ''eth''), (''SOL'', ''sol''), (''XRP'', ''xrp'')]"

definition PERIOD_SECS :: int where
  "PERIOD_SECS = 300"

text \<open>\<^verbatim>\<open>int(ts)\<close> truncates towards zero; \<^verbatim>\<open>//\<close> is floor division.\<close>

definition py_int :: "real \<Rightarrow> int" where
  "py_int x = (if x \<ge> 0 then \<lfloor>x\<rfloor> else \<lceil>x\<rceil>)"

definition get_period_start :: "real \<Rightarrow> int" where
  "get_period_start ts = (let t = py_int ts in (t div PERIOD_SECS) * PERIOD_SECS)"

definition get_period_end :: "int \<Rightarrow> int" where
  "get_period_end start_ts = start_ts + PERIOD_SECS"

definition time_left_in_period :: "int \<Rightarrow> real \<Rightarrow> real" where
  "time_left_in_period start_ts now = (let end_ts = get_period_end start_ts in max 0 (real_of_int end_ts - now))"

text \<open>
  The metadata dict \<^verbatim>\<open>fetch_5m_market\<close> returns, and the part of \<^verbatim>\<open>st.session_state\<close>
  the rotation reads and writes. The two fetches are the external Market Provider:
  \<open>fm prefix period_start\<close> and \<open>fo token_id\<close>.
\<close>

record market =
  md_slug :: string
  md_prefix :: string
  md_question :: string
  md_yes_token :: string
  md_no_token :: string
  md_end_date :: string
  md_active :: bool
  md_closed :: bool
  md_yes_price :: real
  md_no_price :: real
  md_volume :: real
  md_start_ts :: int

record session =
  current_period_start :: int
  period_transitions :: int
  market_data :: "(string \<times> market) list"
  orderbooks :: "(string \<times> book option \<times> book option) list"

definition refresh_market_data ::
  "(string \<Rightarrow> int \<Rightarrow> market option) \<Rightarrow> (string \<Rightarrow> book option) \<Rightarrow> int \<Rightarrow> session \<Rightarrow> session" where
  "refresh_market_data fm fo period_start st =
     (let mds = fold (\<lambda>(symbol, prefix) cache.
                   case fm prefix period_start of
                     Some md \<Rightarrow> AList.update symbol md cache
                   | None \<Rightarrow>
                       (case map_of cache symbol of
                          Some old \<Rightarrow> AList.update symbol (old\<lparr> md_closed := True \<rparr>) cache
                        | None \<Rightarrow> cache))
                 CRYPTO_MARKETS (market_data st);
          obs = fold (\<lambda>(symbol, prefix) books.
                   case map_of mds symbol of
                     None \<Rightarrow> books
                   | Some md \<Rightarrow>
                       AList.update symbol (fo (md_yes_token md), fo (md_no_token md)) books)
                 CRYPTO_MARKETS (orderbooks st)
      in st\<lparr> market_data := mds, orderbooks := obs \<rparr>)"

definition refresh_orderbooks_only :: "(string \<Rightarrow> book option) \<Rightarrow> session \<Rightarrow> session" where
  "refresh_orderbooks_only fo st =
     st\<lparr> orderbooks :=
           fold (\<lambda>(symbol, prefix) books.
                   case map_of (market_data st) symbol of
                     None \<Rightarrow> books
                   | Some md \<Rightarrow>
                       if md_closed md then books
                       else AList.update symbol (fo (md_yes_token md), fo (md_no_token md)) books)
                CRYPTO_MARKETS (orderbooks st) \<rparr>"

text \<open>
  crypto5m\_bot, \<^verbatim>\<open>run_scan\<close>, its period-rotation block (up to the call of
  \<^verbatim>\<open>time_left_in_period\<close>); \<open>now\<close> is the clock \<^verbatim>\<open>get_period_start\<close> reads. The rest
  of \<^verbatim>\<open>run_scan\<close> writes counters, histories and statistics only.
\<close>

definition run_scan_rotation ::
  "(string \<Rightarrow> int \<Rightarrow> market option) \<Rightarrow> (string \<Rightarrow> book option) \<Rightarrow> real \<Rightarrow> session \<Rightarrow> session" where
  "run_scan_rotation fm fo now st =
     (let now_start = get_period_start now;
          prev_start = current_period_start st
      in if now_start \<noteq> prev_start
         then refresh_market_data fm fo now_start
                (st\<lparr> current_period_start := now_start,
                     period_transitions := period_transitions st + 1,
                     market_data := [], orderbooks := [] \<rparr>)
         else if market_data st = [] then refresh_market_data fm fo now_start st
         else refresh_orderbooks_only fo st)"

text \<open>
  \<^verbatim>\<open>run_scan\<close>, the strategy loop: for one symbol, then over \<^verbatim>\<open>CRYPTO_MARKETS\<close>; the
  value is \<^verbatim>\<open>all_opps\<close>.
\<close>

definition book_truthy :: "book option \<Rightarrow> bool" where
  "book_truthy ob = (case ob of None \<Rightarrow> False | Some d \<Rightarrow> d \<noteq> [])"

definition scan_symbol ::
  "str_float \<Rightarrow> (string \<times> book option \<times> book option) list \<Rightarrow> real \<Rightarrow> params \<Rightarrow> string
     \<Rightarrow> py_error + opportunity list" where
  "scan_symbol flt obs time_left p symbol =
     (let yes_ob = (case map_of obs symbol of None \<Rightarrow> None | Some ob \<Rightarrow> fst ob);
          no_ob = (case map_of obs symbol of None \<Rightarrow> None | Some ob \<Rightarrow> snd ob)
      in if \<not> book_truthy yes_ob \<and> \<not> book_truthy no_ob then Inr []
         else
           ebind (check_arb_strategy flt symbol yes_ob no_ob p) (\<lambda>arb.
           ebind (check_snipe_strategy flt symbol yes_ob no_ob time_left p) (\<lambda>snipe.
           ebind (check_mispriced_strategy flt symbol yes_ob no_ob p) (\<lambda>mispx.
             Inr ((case arb of None \<Rightarrow> [] | Some a \<Rightarrow> [a])
                  @ (case snipe of None \<Rightarrow> [] | Some s \<Rightarrow> [s]) @ mispx)))))"

fun scan_symbols ::
  "str_float \<Rightarrow> (string \<times> book option \<times> book option) list \<Rightarrow> real \<Rightarrow> params \<Rightarrow> string list
     \<Rightarrow> py_error + opportunity list" where
  "scan_symbols flt obs time_left p [] = Inr []"
| "scan_symbols flt obs time_left p (symbol # symbols) =
     ebind (scan_symbol flt obs time_left p symbol) (\<lambda>opps.
     ebind (scan_symbols flt obs time_left p symbols) (\<lambda>rest. Inr (opps @ rest)))"

definition run_scan_strategies ::
  "str_float \<Rightarrow> session \<Rightarrow> real \<Rightarrow> params \<Rightarrow> py_error + opportunity list" where
  "run_scan_strategies flt st time_left p =
     scan_symbols flt (orderbooks st) time_left p (map fst CRYPTO_MARKETS)"

section \<open>Example inputs\<close>

text \<open>An order-book level with numeric fields, and a book that has asks only.\<close>

definition level :: "real \<Rightarrow> real \<Rightarrow> pyval" where
  "level price sz = PDict [(''price'', PNum price), (''size'', PNum sz)]"

definition asks_book :: "pyval list \<Rightarrow> book option" where
  "asks_book levels = Some [(''asks'', PList levels), (''bids'', PList [])]"

text \<open>Parameters without fees, whose threshold is the raw edge of asks 0.48 and 0.49.\<close>

definition boundary_params :: params where
  "boundary_params = DEFAULT_PARAMS\<lparr> clob_fee_pct := 0, gas_merge_usd := 0, swap_spread_pct := 0,
       buffer_bps := 0, arb_threshold_bps := 300 \<rparr>"



definition ragged_book :: "book option" where
  "ragged_book =
     Some [(''asks'', PList [level 0.52 10, PDict [(''size'', PNum 5)],
                             PDict [(''price'', PStr ''n/a''), (''size'', PNum 5)], PNone]),
           (''bids'', PList [level 0.47 10, PDict [(''size'', PNum 5)],
                             PDict [(''price'', PStr ''n/a''), (''size'', PNum 5)], PNone])]"




text \<open>
  Ten seconds before the close: YES is asked at 0.93 and NO at 0.90, both clear the snipe
  threshold, and the detector picks YES, the higher ask with the lower edge.
\<close>

definition snipe_yes_book :: "book option" where
  "snipe_yes_book = asks_book [level 0.93 10]"

definition snipe_no_book :: "book option" where
  "snipe_no_book = asks_book [level 0.90 10]"

definition snipe_session :: session where
  "snipe_session =
     \<lparr> current_period_start = 300, period_transitions = 1, market_data = [],
       orderbooks = [(''BTC'', (snipe_yes_book, snipe_no_book))] \<rparr>"

definition snipe_pick :: opportunity where
  "snipe_pick = no_opp\<lparr> o_strategy := ''snipe'', o_crypto := ''BTC'', o_token := ''YES'',
                        o_price := 0.93, o_edge := 0.0678, o_time_left := 10 \<rparr>"

text \<open>
  What the provider holds for a symbol in a period: its metadata, and the order books of
  the two tokens of that metadata.
\<close>

definition fresh_market :: "(string \<Rightarrow> int \<Rightarrow> market option) \<Rightarrow> int \<Rightarrow> string \<Rightarrow> market option" where
  "fresh_market fm period_start symbol =
     (case map_of CRYPTO_MARKETS symbol of None \<Rightarrow> None | Some prefix \<Rightarrow> fm prefix period_start)"

definition fresh_books ::
  "(string \<Rightarrow> int \<Rightarrow> market option) \<Rightarrow> (string \<Rightarrow> book option) \<Rightarrow> int \<Rightarrow> string
     \<Rightarrow> (book option \<times> book option) option" where
  "fresh_books fm fo period_start symbol =
     (case fresh_market fm period_start symbol of
        None \<Rightarrow> None
      | Some md \<Rightarrow> Some (fo (md_yes_token md), fo (md_no_token md)))"

text \<open>
  A provider that lists only the BTC market, an empty session in period 300, and a
  session in period 300 that has BTC and ETH cached.
\<close>

definition example_market :: market where
  "example_market =
     \<lparr> md_slug = ''btc-updown-5m-300'', md_prefix = ''btc'', md_question = ''btc-updown-5m-300'',
       md_yes_token = ''yes-token'', md_no_token = ''no-token'', md_end_date = [],
       md_active = True, md_closed = False, md_yes_price = 0.5, md_no_price = 0.5,
       md_volume = 0, md_start_ts = 300 \<rparr>"

definition btc_provider :: "string \<Rightarrow> int \<Rightarrow> market option" where
  "btc_provider prefix period_start = (if prefix = ''btc'' then Some example_market else None)"

definition no_books :: "string \<Rightarrow> book option" where
  "no_books token_id = None"

definition idle_session :: session where
  "idle_session =
     \<lparr> current_period_start = 300, period_transitions = 1, market_data = [], orderbooks = [] \<rparr>"

definition warm_session :: session where
  "warm_session =
     \<lparr> current_period_start = 300, period_transitions = 1,
       market_data = [(''BTC'', example_market), (''ETH'', example_market)],
       orderbooks = [(''BTC'', (None, None)), (''ETH'', (None, None))] \<rparr>"

text \<open>
  The total size resting at one price level: the entries with exactly this price, their
  sizes summed.
\<close>

definition level_size :: "(real \<times> real) list \<Rightarrow> real \<Rightarrow> real" where
  "level_size entries q = sum_list (map snd (filter (\<lambda>e. fst e = q) entries))"

text \<open>
  Ask lists: a cluster at 0.97 with one ask at 0.04; a cluster at 0.08 with one ask at
  0.039; two levels of equal total size, the higher price listed first.
\<close>

definition example_asks :: pyval where
  "example_asks = PList [level 0.97 100, level 0.97 50, level 0.04 20]"

definition example_entries :: "(real \<times> real) list" where
  "example_entries = [(0.97, 100), (0.97, 50), (0.04, 20)]"



definition tie_asks :: pyval where
  "tie_asks = PList [level 0.97 100, level 0.04 100]"

definition tie_entries :: "(real \<times> real) list" where
  "tie_entries = [(0.97, 100), (0.04, 100)]"

section \<open>Basic facts\<close>

lemma ebind_simps [simp]:
  "ebind (Inl e) f = Inl e"
  "ebind (Inr x) f = f x"
  by (simp_all add: ebind_def)

lemma ebind_eq_Inr: "ebind m f = Inr y \<longleftrightarrow> (\<exists>x. m = Inr x \<and> f x = Inr y)"
  by (cases m) simp_all

text \<open>The accessors of crypto5m\_bot catch everything they can raise.\<close>

lemma best_ask_price_total: "\<exists>r. best_ask_price flt ob = Inr r"
  by (auto simp: best_ask_price_def Let_def split: option.splits sum.splits)

lemma best_bid_price_total: "\<exists>r. best_bid_price flt ob = Inr r"
  by (auto simp: best_bid_price_def Let_def split: option.splits sum.splits)

lemma effective_buy_price_total: "\<exists>r. effective_buy_price flt ob = Inr r"
  by (simp add: effective_buy_price_def best_ask_price_total)

lemma best_ask_price_single:
  "best_ask_price flt (asks_book [level a sz]) = Inr (Some a)"
  by (simp add: best_ask_price_def asks_book_def level_def dict_get_def level_prices_def)

lemma best_bid_price_no_bids:
  "best_bid_price flt (asks_book levels) = Inr None"
  by (simp add: best_bid_price_def asks_book_def dict_get_def)

section \<open>Cost model (C2, C3)\<close>

text \<open>
  Claim C3, as the code has it: the fee fraction of \<^verbatim>\<open>total_fees\<close> is
  \<open>2 \<times> clob_fee + gas_cost / trade_size + 2 \<times> swap_spread + buffer_bps / 10000\<close>, and
  the gas term is 0 when the trade size is not positive. The fee fraction that
  \<^verbatim>\<open>compute_edge\<close> subtracts (raw edge minus net edge) has the same CLOB, gas and
  buffer terms and the same guard, but charges the swap spread once, not twice.
\<close>

theorem cost_model_fee_fraction:
  "total_fees ts p =
     2 * clob_fee_pct p + (if ts > 0 then gas_merge_usd p / ts else 0)
       + 2 * swap_spread_pct p + buffer_bps p / 10000
   \<and> fst (compute_edge buy_yes buy_no cf g sw bb ts) - snd (compute_edge buy_yes buy_no cf g sw bb ts) =
     2 * cf + (if ts > 0 then g / ts else 0) + sw + bb / 10000"
  by (simp add: total_fees_def compute_edge_def Let_def)

text \<open>
  With the default arguments of \<^verbatim>\<open>compute_edge\<close> the fee fraction is 0.0037, not the
  0.0039 that the two-sided formula of C3 gives.
\<close>

theorem compute_edge_single_swap_spread:
  "fst (compute_edge 0.48 0.49 0.00075 0.5 0.0002 10 500)
     - snd (compute_edge 0.48 0.49 0.00075 0.5 0.0002 10 500)
   \<noteq> 2 * 0.00075 + 0.5 / 500 + 2 * 0.0002 + 10 / 10000"
  by (simp add: compute_edge_def Let_def)

lemma check_arb_strategy_asks:
  assumes "best_ask_price flt yes_ob = Inr (Some ya)"
    and "best_ask_price flt no_ob = Inr (Some na)"
    and "ya > 0" and "na > 0"
  shows "check_arb_strategy flt crypto yes_ob no_ob p =
     (if snd (compute_arb_edge ya na ((min_trade_usd p + max_trade_usd p) / 2) p)
           < arb_threshold_bps p / 10000
      then Inr None
      else Inr (Some (no_opp\<lparr> o_strategy := ''arb'', o_crypto := crypto,
                o_yes_price := ya, o_no_price := na, o_total := ya + na,
                o_raw_edge :=
                  fst (compute_arb_edge ya na ((min_trade_usd p + max_trade_usd p) / 2) p),
                o_net_edge :=
                  snd (compute_arb_edge ya na ((min_trade_usd p + max_trade_usd p) / 2) p) \<rparr>)))"
  using assms
  by (simp add: check_arb_strategy_def effective_buy_price_def Let_def split_beta)

text \<open>
  Claim C2, as the code has it: with YES best ask 0.48, NO best ask 0.49, CLOB fee
  0.00075 per leg, gas 0.50 USD, swap spread 0.0002, buffer 10 bps and trade size 1000
  (the midpoint of the configured minimum and maximum), the total fee fraction is
  0.0034 and the net edge is 0.0266 (2.66\%); with \<open>arb_threshold_bps = 20\<close> the
  arbitrage opportunity is emitted, carrying raw edge 0.03 and net edge 0.0266.
\<close>

theorem arb_scenario:
  assumes "clob_fee_pct p = 0.00075" and "gas_merge_usd p = 0.50"
    and "swap_spread_pct p = 0.0002" and "buffer_bps p = 10"
    and "arb_threshold_bps p = 20"
    and "(min_trade_usd p + max_trade_usd p) / 2 = 1000"
    and "best_ask_price flt yes_ob = Inr (Some 0.48)"
    and "best_ask_price flt no_ob = Inr (Some 0.49)"
  shows "total_fees 1000 p = 0.0034
     \<and> compute_arb_edge 0.48 0.49 1000 p = (0.03, 0.0266)
     \<and> check_arb_strategy flt crypto yes_ob no_ob p =
         Inr (Some (no_opp\<lparr> o_strategy := ''arb'', o_crypto := crypto,
                o_yes_price := 0.48, o_no_price := 0.49, o_total := 0.97,
                o_raw_edge := 0.03, o_net_edge := 0.0266 \<rparr>))"
proof -
  have fees: "total_fees 1000 p = 0.0034"
    using assms(1-4) by (simp add: total_fees_def Let_def)
  have edge: "compute_arb_edge 0.48 0.49 1000 p = (0.03, 0.0266)"
    using fees by (simp add: compute_arb_edge_def Let_def)
  have "check_arb_strategy flt crypto yes_ob no_ob p =
         Inr (Some (no_opp\<lparr> o_strategy := ''arb'', o_crypto := crypto,
                o_yes_price := 0.48, o_no_price := 0.49, o_total := 0.97,
                o_raw_edge := 0.03, o_net_edge := 0.0266 \<rparr>))"
    using check_arb_strategy_asks [OF assms(7) assms(8), of crypto p] assms(5,6) edge
    by simp
  with fees edge show ?thesis by simp
qed

theorem arb_scenario_witness:
  "total_fees 1000 (DEFAULT_PARAMS\<lparr> min_trade_usd := 0 \<rparr>) = 0.0034
   \<and> compute_arb_edge 0.48 0.49 1000 (DEFAULT_PARAMS\<lparr> min_trade_usd := 0 \<rparr>) = (0.03, 0.0266)
   \<and> check_arb_strategy (\<lambda>s. None) ''BTC'' (asks_book [level 0.48 100])
        (asks_book [level 0.49 100]) (DEFAULT_PARAMS\<lparr> min_trade_usd := 0 \<rparr>) =
       Inr (Some (no_opp\<lparr> o_strategy := ''arb'', o_crypto := ''BTC'',
              o_yes_price := 0.48, o_no_price := 0.49, o_total := 0.97,
              o_raw_edge := 0.03, o_net_edge := 0.0266 \<rparr>))"
  using arb_scenario [of "DEFAULT_PARAMS\<lparr> min_trade_usd := 0 \<rparr>" "\<lambda>s. None"
      "asks_book [level 0.48 100]" "asks_book [level 0.49 100]" "''BTC''"]
  by (simp add: DEFAULT_PARAMS_def best_ask_price_single)

text \<open>
  The figures of C2 as it is written, 0.00245 and 0.02755, are each 0.00095 away from
  what the code computes at that input.
\<close>

theorem arb_scenario_fee_figures:
  "total_fees 1000 DEFAULT_PARAMS = 0.0034
   \<and> snd (compute_arb_edge 0.48 0.49 1000 DEFAULT_PARAMS) = 0.0266
   \<and> \<bar>total_fees 1000 DEFAULT_PARAMS - 0.00245\<bar> > 0.0009
   \<and> \<bar>snd (compute_arb_edge 0.48 0.49 1000 DEFAULT_PARAMS) - 0.02755\<bar> > 0.0009"
  by (simp add: total_fees_def compute_arb_edge_def DEFAULT_PARAMS_def Let_def)

section \<open>The arbitrage detector (C6)\<close>

text \<open>
  Claim C6: for positive best asks of the YES and NO books, \<^verbatim>\<open>check_arb_strategy\<close>
  emits an opportunity if and only if the net edge, \<open>1 - (yes_ask + no_ask)\<close> minus the
  total fee fraction at the midpoint trade size, is at least \<open>arb_threshold_bps / 10000\<close>.
  A net edge equal to the threshold emits (the opportunity carries both asks, the raw
  and the net edge); a net edge below it emits nothing.
\<close>

theorem arb_emitted_iff:
  assumes "best_ask_price flt yes_ob = Inr (Some yes_ask)"
    and "best_ask_price flt no_ob = Inr (Some no_ask)"
    and "yes_ask > 0" and "no_ask > 0"
    and "net_edge = 1 - (yes_ask + no_ask) - total_fees ((min_trade_usd p + max_trade_usd p) / 2) p"
  shows "((\<exists>opp. check_arb_strategy flt crypto yes_ob no_ob p = Inr (Some opp))
            \<longleftrightarrow> net_edge \<ge> arb_threshold_bps p / 10000)
     \<and> (net_edge = arb_threshold_bps p / 10000 \<longrightarrow>
          (\<exists>opp. check_arb_strategy flt crypto yes_ob no_ob p = Inr (Some opp)
                 \<and> o_yes_price opp = yes_ask \<and> o_no_price opp = no_ask
                 \<and> o_raw_edge opp = 1 - (yes_ask + no_ask) \<and> o_net_edge opp = net_edge))
     \<and> (net_edge < arb_threshold_bps p / 10000 \<longrightarrow>
          check_arb_strategy flt crypto yes_ob no_ob p = Inr None)"
  using check_arb_strategy_asks [OF assms(1-4), of crypto p] assms(5)
  by (simp add: compute_arb_edge_def Let_def)

theorem arb_emitted_iff_witness:
  "best_ask_price (\<lambda>s. None) (asks_book [level 0.48 100]) = Inr (Some 0.48)
   \<and> best_ask_price (\<lambda>s. None) (asks_book [level 0.49 100]) = Inr (Some 0.49)
   \<and> (0::real) < 0.48 \<and> (0::real) < 0.49
   \<and> 1 - (0.48 + 0.49) - total_fees ((min_trade_usd boundary_params + max_trade_usd boundary_params) / 2) boundary_params
       = arb_threshold_bps boundary_params / 10000
   \<and> (\<exists>opp. check_arb_strategy (\<lambda>s. None) ''BTC'' (asks_book [level 0.48 100])
               (asks_book [level 0.49 100]) boundary_params = Inr (Some opp)
            \<and> o_yes_price opp = 0.48 \<and> o_no_price opp = 0.49
            \<and> o_raw_edge opp = 1 - (0.48 + 0.49) \<and> o_net_edge opp = 0.03)
   \<and> check_arb_strategy (\<lambda>s. None) ''BTC'' (asks_book [level 0.48 100])
               (asks_book [level 0.49 100]) (boundary_params\<lparr> arb_threshold_bps := 301 \<rparr>) = Inr None"
proof -
  have f: "total_fees x boundary_params = 0" for x
    by (simp add: total_fees_def boundary_params_def DEFAULT_PARAMS_def Let_def)
  have f': "total_fees x (boundary_params\<lparr> arb_threshold_bps := 301 \<rparr>) = 0" for x
    by (simp add: total_fees_def boundary_params_def DEFAULT_PARAMS_def Let_def)
  have t: "arb_threshold_bps boundary_params = 300"
    by (simp add: boundary_params_def)
  show ?thesis
    using arb_emitted_iff [where flt = "\<lambda>s. None" and yes_ob = "asks_book [level 0.48 100]"
        and no_ob = "asks_book [level 0.49 100]" and yes_ask = "0.48" and no_ask = "0.49"
        and net_edge = "0.03" and p = boundary_params and crypto = "''BTC''"]
      arb_emitted_iff [where flt = "\<lambda>s. None" and yes_ob = "asks_book [level 0.48 100]"
        and no_ob = "asks_book [level 0.49 100]" and yes_ask = "0.48" and no_ask = "0.49"
        and net_edge = "0.03" and p = "boundary_params\<lparr> arb_threshold_bps := 301 \<rparr>"
        and crypto = "''BTC''"]
    by (simp add: f f' t best_ask_price_single)
qed

section \<open>Totality of the order book accessors (C10)\<close>






text \<open>
  Outside that shape the loop of \<^verbatim>\<open>best_ask\<close> is not protected: a null under
  \<^verbatim>\<open>"asks"\<close> is not iterable, and the \<^verbatim>\<open>for\<close> statement stands before the \<^verbatim>\<open>try\<close>.
\<close>

lemma best_ask_null_asks: "best_ask flt (Some [(''asks'', PNone)]) = Inl TypeError"
  by (simp add: best_ask_def dict_get_def)

lemma ragged_values:
  "best_ask_price (\<lambda>s. None) ragged_book = Inr None"
  "best_bid_price (\<lambda>s. None) ragged_book = Inr None"
  "best_ask (\<lambda>s. None) ragged_book = Inr (Some 0.52)"
  "best_bid (\<lambda>s. None) ragged_book = Inr (Some 0.47)"
  by (simp_all add: ragged_book_def best_ask_price_def best_bid_price_def best_ask_def best_bid_def
        dict_get_def level_prices_def level_def level_price_size_def Let_def)


section \<open>Execution simulation (C1)\<close>




section \<open>The snipe detector (C7)\<close>

text \<open>What each detector writes into the strategy and symbol of its opportunities.\<close>

lemma arb_opp_fields:
  assumes "check_arb_strategy flt crypto yes_ob no_ob p = Inr (Some a)"
  shows "o_strategy a = ''arb'' \<and> o_crypto a = crypto"
proof -
  obtain yes_ask where y: "effective_buy_price flt yes_ob = Inr yes_ask"
    using effective_buy_price_total by blast
  obtain no_ask where n: "effective_buy_price flt no_ob = Inr no_ask"
    using effective_buy_price_total by blast
  show ?thesis
    using assms y n
    by (cases yes_ask; cases no_ask)
       (auto simp: check_arb_strategy_def Let_def split_beta split: if_splits)
qed

lemma snipe_opp_fields:
  assumes "check_snipe_strategy flt crypto yes_ob no_ob time_left p = Inr (Some s)"
  shows "o_strategy s = ''snipe'' \<and> o_crypto s = crypto"
proof -
  obtain yes_ask where y: "effective_buy_price flt yes_ob = Inr yes_ask"
    using effective_buy_price_total by blast
  obtain no_ask where n: "effective_buy_price flt no_ob = Inr no_ask"
    using effective_buy_price_total by blast
  obtain yb where yb: "best_bid_price flt yes_ob = Inr yb"
    using best_bid_price_total by blast
  show ?thesis
    using assms y n yb
    by (cases yes_ask; cases no_ask)
       (auto simp: check_snipe_strategy_def Let_def split: if_splits)
qed

lemma mispriced_side_fields:
  "mispriced_side flt crypto p lbl ob = Inr ms \<Longrightarrow>
     \<forall>m\<in>set ms. o_strategy m = ''mispriced'' \<and> o_crypto m = crypto"
  by (auto simp: mispriced_side_def ebind_eq_Inr split: option.splits if_splits)

lemma mispriced_opp_fields:
  "check_mispriced_strategy flt crypto yes_ob no_ob p = Inr ms \<Longrightarrow>
     \<forall>m\<in>set ms. o_strategy m = ''mispriced'' \<and> o_crypto m = crypto"
  by (auto simp: check_mispriced_strategy_def ebind_eq_Inr dest!: mispriced_side_fields)

lemma scan_symbol_opps:
  assumes "scan_symbol flt obs time_left p symbol = Inr opps"
  shows "(\<forall>x\<in>set opps. o_crypto x = symbol) \<and>
         length (filter (\<lambda>x. o_strategy x = ''snipe'') opps) \<le> 1"
proof -
  define yes_ob where "yes_ob = (case map_of obs symbol of None \<Rightarrow> None | Some ob \<Rightarrow> fst ob)"
  define no_ob where "no_ob = (case map_of obs symbol of None \<Rightarrow> None | Some ob \<Rightarrow> snd ob)"
  from assms have "opps = [] \<or> (\<exists>arb snipe mispx.
      check_arb_strategy flt symbol yes_ob no_ob p = Inr arb \<and>
      check_snipe_strategy flt symbol yes_ob no_ob time_left p = Inr snipe \<and>
      check_mispriced_strategy flt symbol yes_ob no_ob p = Inr mispx \<and>
      opps = (case arb of None \<Rightarrow> [] | Some a \<Rightarrow> [a])
               @ (case snipe of None \<Rightarrow> [] | Some s \<Rightarrow> [s]) @ mispx)"
    unfolding scan_symbol_def Let_def yes_ob_def [symmetric] no_ob_def [symmetric]
    by (auto simp: ebind_eq_Inr split: if_splits)
  then show ?thesis
  proof
    assume "opps = []"
    then show ?thesis by simp
  next
    assume "\<exists>arb snipe mispx.
      check_arb_strategy flt symbol yes_ob no_ob p = Inr arb \<and>
      check_snipe_strategy flt symbol yes_ob no_ob time_left p = Inr snipe \<and>
      check_mispriced_strategy flt symbol yes_ob no_ob p = Inr mispx \<and>
      opps = (case arb of None \<Rightarrow> [] | Some a \<Rightarrow> [a])
               @ (case snipe of None \<Rightarrow> [] | Some s \<Rightarrow> [s]) @ mispx"
    then obtain arb snipe mispx where
      a: "check_arb_strategy flt symbol yes_ob no_ob p = Inr arb" and
      s: "check_snipe_strategy flt symbol yes_ob no_ob time_left p = Inr snipe" and
      m: "check_mispriced_strategy flt symbol yes_ob no_ob p = Inr mispx" and
      opps: "opps = (case arb of None \<Rightarrow> [] | Some a \<Rightarrow> [a])
               @ (case snipe of None \<Rightarrow> [] | Some s \<Rightarrow> [s]) @ mispx"
      by blast
    have m': "\<forall>x\<in>set mispx. o_strategy x = ''mispriced'' \<and> o_crypto x = symbol"
      using mispriced_opp_fields [OF m] .
    then have mf: "filter (\<lambda>x. o_strategy x = ''snipe'') mispx = []"
      by (auto simp: filter_empty_conv)
    have af: "\<And>x. arb = Some x \<Longrightarrow> o_strategy x = ''arb'' \<and> o_crypto x = symbol"
      using a arb_opp_fields by blast
    have sf: "\<And>x. snipe = Some x \<Longrightarrow> o_strategy x = ''snipe'' \<and> o_crypto x = symbol"
      using s snipe_opp_fields by blast
    have c: "\<forall>x\<in>set opps. o_crypto x = symbol"
    proof
      fix x assume "x \<in> set opps"
      then have "arb = Some x \<or> snipe = Some x \<or> x \<in> set mispx"
        unfolding opps by (cases arb; cases snipe) auto
      then show "o_crypto x = symbol" using af sf m' by blast
    qed
    have fa: "filter (\<lambda>x. o_strategy x = ''snipe'') (case arb of None \<Rightarrow> [] | Some a \<Rightarrow> [a]) = []"
    proof (cases arb)
      case None
      then show ?thesis by simp
    next
      case (Some a)
      then have "o_strategy a = ''arb''" using af by blast
      then show ?thesis using Some by simp
    qed
    have fs: "length (filter (\<lambda>x. o_strategy x = ''snipe'')
                (case snipe of None \<Rightarrow> [] | Some s \<Rightarrow> [s])) \<le> 1"
      by (cases snipe) simp_all
    have "length (filter (\<lambda>x. o_strategy x = ''snipe'') opps) \<le> 1"
      unfolding opps using fa fs mf by simp
    with c show ?thesis by simp
  qed
qed

lemma scan_symbols_snipe:
  assumes "scan_symbols flt obs time_left p symbols = Inr all_opps" and "distinct symbols"
  shows "length (filter (\<lambda>x. o_strategy x = ''snipe'' \<and> o_crypto x = s) all_opps) \<le> 1
       \<and> (\<forall>x\<in>set all_opps. o_crypto x \<in> set symbols)"
  using assms
proof (induction symbols arbitrary: all_opps)
  case Nil
  then show ?case by simp
next
  case (Cons symbol symbols)
  from Cons.prems obtain opps rest where
    h: "scan_symbol flt obs time_left p symbol = Inr opps" and
    t: "scan_symbols flt obs time_left p symbols = Inr rest" and
    e: "all_opps = opps @ rest"
    by (auto simp: ebind_eq_Inr)
  from Cons.prems have d: "distinct symbols" and n: "symbol \<notin> set symbols" by simp_all
  note ih = Cons.IH [OF t d]
  note hs = scan_symbol_opps [OF h]
  have le: "length (filter (\<lambda>x. o_strategy x = ''snipe'' \<and> o_crypto x = s) opps)
            \<le> length (filter (\<lambda>x. o_strategy x = ''snipe'') opps)"
    by (induction opps) auto
  show ?case
  proof (cases "s = symbol")
    case True
    have "filter (\<lambda>x. o_strategy x = ''snipe'' \<and> o_crypto x = s) rest = []"
      using ih n True by (auto simp: filter_empty_conv)
    with hs le ih show ?thesis unfolding e by auto
  next
    case False
    have "filter (\<lambda>x. o_strategy x = ''snipe'' \<and> o_crypto x = s) opps = []"
      using hs False by (auto simp: filter_empty_conv)
    with hs ih show ?thesis unfolding e by auto
  qed
qed

lemma run_scan_one_snipe:
  "run_scan_strategies flt st time_left p = Inr all_opps \<Longrightarrow>
   length (filter (\<lambda>x. o_strategy x = ''snipe'' \<and> o_crypto x = s) all_opps) \<le> 1"
  using scan_symbols_snipe [of flt "orderbooks st" time_left p "map fst CRYPTO_MARKETS" all_opps s]
  by (simp add: run_scan_strategies_def CRYPTO_MARKETS_def)

lemma snipe_outside_window:
  "time_left > last_15s_window p \<Longrightarrow>
     check_snipe_strategy flt crypto yes_ob no_ob time_left p = Inr None"
  by (simp add: check_snipe_strategy_def Let_def)

lemma snipe_selection:
  assumes w: "time_left \<le> last_15s_window p" and m: "max_trade_usd p \<noteq> 0"
    and ya: "best_ask_price flt yes_ob = Inr yes_ask"
    and na: "best_ask_price flt no_ob = Inr no_ask"
    and fees: "fees = clob_fee_pct p + gas_merge_usd p / max_trade_usd p + swap_spread_pct p + buffer_bps p / 10000"
    and cand: "cand = {a. (yes_ask = Some a \<or> no_ask = Some a) \<and> a > 0 \<and> 1 - a - fees \<ge> snipe_threshold p}"
  shows "(cand = {} \<longrightarrow> check_snipe_strategy flt crypto yes_ob no_ob time_left p = Inr None) \<and>
         (cand \<noteq> {} \<longrightarrow> (\<exists>opp. check_snipe_strategy flt crypto yes_ob no_ob time_left p = Inr (Some opp)
              \<and> o_strategy opp = ''snipe'' \<and> o_crypto opp = crypto
              \<and> o_price opp \<in> cand \<and> (\<forall>a\<in>cand. a \<le> o_price opp)
              \<and> o_edge opp = 1 - o_price opp - fees
              \<and> (\<forall>a\<in>cand. o_edge opp \<le> 1 - a - fees)
              \<and> (\<forall>a\<in>cand. a \<noteq> o_price opp \<longrightarrow> o_edge opp < 1 - a - fees)))"
proof -
  obtain yb where yb: "best_bid_price flt yes_ob = Inr yb"
    using best_bid_price_total by blast
  show ?thesis
    using w m ya na yb
    unfolding cand fees
    by (cases yes_ask; cases no_ask)
       (auto simp: check_snipe_strategy_def effective_buy_price_def Let_def)
qed

text \<open>
  Claim C7: \<^verbatim>\<open>check_snipe_strategy\<close> emits nothing when the time remaining exceeds the
  snipe window. Within the window (and with a non-zero maximum trade size, which the fee
  term divides by) it emits nothing when no side clears the threshold, and otherwise one
  opportunity whose price is the highest ask among the sides that clear it; its edge is
  therefore the lowest among them, strictly lower than that of any candidate with another
  ask. Over one pass of the strategy loop of \<^verbatim>\<open>run_scan\<close>, the opportunities collected
  hold at most one snipe per symbol.
\<close>

theorem snipe_detector:
  assumes "best_ask_price flt yes_ob = Inr yes_ask"
    and "best_ask_price flt no_ob = Inr no_ask"
    and "fees = clob_fee_pct p + gas_merge_usd p / max_trade_usd p + swap_spread_pct p
                  + buffer_bps p / 10000"
    and "cand = {a. (yes_ask = Some a \<or> no_ask = Some a) \<and> a > 0
                     \<and> 1 - a - fees \<ge> snipe_threshold p}"
  shows "(time_left > last_15s_window p \<longrightarrow>
            check_snipe_strategy flt crypto yes_ob no_ob time_left p = Inr None)
     \<and> (time_left \<le> last_15s_window p \<and> max_trade_usd p \<noteq> 0 \<longrightarrow>
          (cand = {} \<longrightarrow> check_snipe_strategy flt crypto yes_ob no_ob time_left p = Inr None) \<and>
          (cand \<noteq> {} \<longrightarrow>
             (\<exists>opp. check_snipe_strategy flt crypto yes_ob no_ob time_left p = Inr (Some opp)
                \<and> o_strategy opp = ''snipe'' \<and> o_crypto opp = crypto
                \<and> o_price opp \<in> cand \<and> (\<forall>a\<in>cand. a \<le> o_price opp)
                \<and> o_edge opp = 1 - o_price opp - fees
                \<and> (\<forall>a\<in>cand. o_edge opp \<le> 1 - a - fees)
                \<and> (\<forall>a\<in>cand. a \<noteq> o_price opp \<longrightarrow> o_edge opp < 1 - a - fees))))
     \<and> (run_scan_strategies flt st time_left p = Inr all_opps \<longrightarrow>
          length (filter (\<lambda>x. o_strategy x = ''snipe'' \<and> o_crypto x = s) all_opps) \<le> 1)"
  using snipe_outside_window [of p time_left flt crypto yes_ob no_ob]
    snipe_selection [OF _ _ assms, of time_left crypto]
    run_scan_one_snipe [of flt st time_left p all_opps s]
  by blast


lemma snipe_books_asks:
  "best_ask_price flt snipe_yes_book = Inr (Some 0.93)"
  "best_ask_price flt snipe_no_book = Inr (Some 0.90)"
  "best_bid_price flt snipe_yes_book = Inr None"
  by (simp_all add: snipe_yes_book_def snipe_no_book_def best_ask_price_single
        best_bid_price_no_bids)

lemma snipe_example_in_window:
  "check_snipe_strategy (\<lambda>s. None) ''BTC'' snipe_yes_book snipe_no_book 10 DEFAULT_PARAMS =
   Inr (Some snipe_pick)"
  by (simp add: check_snipe_strategy_def effective_buy_price_def snipe_books_asks
        DEFAULT_PARAMS_def snipe_pick_def Let_def)

lemma snipe_example_arb:
  "check_arb_strategy (\<lambda>s. None) ''BTC'' snipe_yes_book snipe_no_book DEFAULT_PARAMS = Inr None"
  by (simp add: check_arb_strategy_def effective_buy_price_def snipe_books_asks
        compute_arb_edge_def total_fees_def DEFAULT_PARAMS_def Let_def)

lemma snipe_example_mispriced:
  "check_mispriced_strategy (\<lambda>s. None) ''BTC'' snipe_yes_book snipe_no_book DEFAULT_PARAMS = Inr []"
  by (simp add: check_mispriced_strategy_def mispriced_side_def asks_book_def dict_get_def
        find_mispriced_orders_def snipe_yes_book_def snipe_no_book_def)

lemma snipe_example_scan:
  "run_scan_strategies (\<lambda>s. None) snipe_session 10 DEFAULT_PARAMS = Inr [snipe_pick]"
proof -
  have b: "book_truthy snipe_yes_book"
    by (simp add: book_truthy_def asks_book_def snipe_yes_book_def)
  have n: "\<not> book_truthy None" by (simp add: book_truthy_def)
  have btc: "scan_symbol (\<lambda>s. None) (orderbooks snipe_session) 10 DEFAULT_PARAMS ''BTC'' =
      Inr [snipe_pick]"
    by (simp add: scan_symbol_def snipe_session_def b snipe_example_in_window snipe_example_arb
          snipe_example_mispriced Let_def)
  have other: "scan_symbol (\<lambda>s. None) (orderbooks snipe_session) 10 DEFAULT_PARAMS k = Inr []"
    if "k \<noteq> ''BTC''" for k
    using that by (simp add: scan_symbol_def snipe_session_def n Let_def)
  show ?thesis
    by (simp add: run_scan_strategies_def CRYPTO_MARKETS_def btc other)
qed

theorem snipe_detector_witness:
  "check_snipe_strategy (\<lambda>s. None) ''BTC'' snipe_yes_book snipe_no_book 20 DEFAULT_PARAMS = Inr None
   \<and> (\<exists>opp. check_snipe_strategy (\<lambda>s. None) ''BTC'' snipe_yes_book snipe_no_book 10 DEFAULT_PARAMS
               = Inr (Some opp)
            \<and> o_price opp = 0.93 \<and> o_edge opp = 0.0678 \<and> o_edge opp < 1 - 0.90 - 0.0022)
   \<and> run_scan_strategies (\<lambda>s. None) snipe_session 10 DEFAULT_PARAMS = Inr [snipe_pick]
   \<and> length (filter (\<lambda>x. o_strategy x = ''snipe'' \<and> o_crypto x = ''BTC'') [snipe_pick]) \<le> 1"
proof -
  define cand :: "real set" where
    "cand = {a. (Some (0.93::real) = Some a \<or> Some (0.90::real) = Some a) \<and> a > 0
                 \<and> 1 - a - 0.0022 \<ge> snipe_threshold DEFAULT_PARAMS}"
  have fees: "(0.0022::real) = clob_fee_pct DEFAULT_PARAMS
        + gas_merge_usd DEFAULT_PARAMS / max_trade_usd DEFAULT_PARAMS
        + swap_spread_pct DEFAULT_PARAMS + buffer_bps DEFAULT_PARAMS / 10000"
    by (simp add: DEFAULT_PARAMS_def)
  have c: "cand = {0.93, 0.90}"
    unfolding cand_def by (auto simp: DEFAULT_PARAMS_def)
  have w: "(10::real) \<le> last_15s_window DEFAULT_PARAMS" "(20::real) > last_15s_window DEFAULT_PARAMS"
    "max_trade_usd DEFAULT_PARAMS \<noteq> 0"
    by (simp_all add: DEFAULT_PARAMS_def)
  note t10 = snipe_detector [OF snipe_books_asks(1) snipe_books_asks(2) fees cand_def,
      where flt = "\<lambda>s. None" and time_left = 10 and crypto = "''BTC''" and st = snipe_session
        and all_opps = "[snipe_pick]" and s = "''BTC''"]
  note t20 = snipe_detector [OF snipe_books_asks(1) snipe_books_asks(2) fees cand_def,
      where flt = "\<lambda>s. None" and time_left = 20 and crypto = "''BTC''" and st = snipe_session
        and all_opps = "[snipe_pick]" and s = "''BTC''"]
  from t20 w have a: "check_snipe_strategy (\<lambda>s. None) ''BTC'' snipe_yes_book snipe_no_book 20
      DEFAULT_PARAMS = Inr None"
    by blast
  have ne: "cand \<noteq> {}" using c by simp
  from t10 w ne have "\<exists>opp. check_snipe_strategy (\<lambda>s. None) ''BTC'' snipe_yes_book snipe_no_book
          10 DEFAULT_PARAMS = Inr (Some opp)
        \<and> o_price opp \<in> cand \<and> (\<forall>a\<in>cand. a \<le> o_price opp)
        \<and> o_edge opp = 1 - o_price opp - 0.0022"
    by blast
  then obtain opp where
    o: "check_snipe_strategy (\<lambda>s. None) ''BTC'' snipe_yes_book snipe_no_book 10 DEFAULT_PARAMS
          = Inr (Some opp)"
    and p: "o_price opp \<in> cand" "\<forall>a\<in>cand. a \<le> o_price opp"
    and e: "o_edge opp = 1 - o_price opp - 0.0022"
    by blast
  from p c have p93: "o_price opp = 0.93" by auto
  with e have e': "o_edge opp = 0.0678" by simp
  from t10 snipe_example_scan have l:
    "length (filter (\<lambda>x. o_strategy x = ''snipe'' \<and> o_crypto x = ''BTC'') [snipe_pick]) \<le> 1"
    by blast
  show ?thesis
    using a o p93 e' l snipe_example_scan by auto
qed

section \<open>Period rotation (C8)\<close>

lemma fold_markets:
  assumes "distinct (map fst ms)"
  shows "map_of (fold (\<lambda>(symbol, prefix) cache.
                   case fm prefix ps of
                     Some md \<Rightarrow> AList.update symbol md cache
                   | None \<Rightarrow>
                       (case map_of cache symbol of
                          Some old \<Rightarrow> AList.update symbol (old\<lparr> md_closed := True \<rparr>) cache
                        | None \<Rightarrow> cache)) ms cache0) k =
         (case map_of ms k of
            None \<Rightarrow> map_of cache0 k
          | Some prefix \<Rightarrow>
              (case fm prefix ps of
                 Some md \<Rightarrow> Some md
               | None \<Rightarrow> map_option (\<lambda>old. old\<lparr> md_closed := True \<rparr>) (map_of cache0 k)))"
  using assms
proof (induction ms arbitrary: cache0)
  case Nil
  then show ?case by simp
next
  case (Cons a ms)
  obtain symbol prefix where a: "a = (symbol, prefix)" by (cases a)
  from Cons.prems a have d: "distinct (map fst ms)" and n: "map_of ms symbol = None"
    by (auto simp: map_of_eq_None_iff)
  show ?case
    using n unfolding a
    by (auto simp: Cons.IH [OF d] update_conv' split: option.splits)
qed

lemma fold_books:
  assumes "distinct (map fst ms)"
  shows "map_of (fold (\<lambda>(symbol, prefix) books.
                   case map_of mds symbol of
                     None \<Rightarrow> books
                   | Some md \<Rightarrow>
                       AList.update symbol (fo (md_yes_token md), fo (md_no_token md)) books)
                 ms books0) k =
         (case map_of ms k of
            None \<Rightarrow> map_of books0 k
          | Some prefix \<Rightarrow>
              (case map_of mds k of
                 None \<Rightarrow> map_of books0 k
               | Some md \<Rightarrow> Some (fo (md_yes_token md), fo (md_no_token md))))"
  using assms
proof (induction ms arbitrary: books0)
  case Nil
  then show ?case by simp
next
  case (Cons a ms)
  obtain symbol prefix where a: "a = (symbol, prefix)" by (cases a)
  from Cons.prems a have d: "distinct (map fst ms)" and n: "map_of ms symbol = None"
    by (auto simp: map_of_eq_None_iff)
  show ?case
    using n unfolding a
    by (auto simp: Cons.IH [OF d] update_conv' split: option.splits)
qed

lemma distinct_markets: "distinct (map fst CRYPTO_MARKETS)"
  by (simp add: CRYPTO_MARKETS_def)

lemma refresh_from_empty:
  assumes "market_data st = []" and "orderbooks st = []"
  shows "map_of (market_data (refresh_market_data fm fo ps st)) k = fresh_market fm ps k"
    and "map_of (orderbooks (refresh_market_data fm fo ps st)) k = fresh_books fm fo ps k"
proof -
  define mds where "mds = fold (\<lambda>(symbol, prefix) cache.
                   case fm prefix ps of
                     Some md \<Rightarrow> AList.update symbol md cache
                   | None \<Rightarrow>
                       (case map_of cache symbol of
                          Some old \<Rightarrow> AList.update symbol (old\<lparr> md_closed := True \<rparr>) cache
                        | None \<Rightarrow> cache))
                 CRYPTO_MARKETS (market_data st)"
  have m: "map_of mds j = fresh_market fm ps j" for j
    unfolding mds_def fold_markets [OF distinct_markets] fresh_market_def
    using assms(1) by (simp split: option.splits)
  have md: "market_data (refresh_market_data fm fo ps st) = mds"
    by (simp add: refresh_market_data_def Let_def mds_def)
  have ob: "orderbooks (refresh_market_data fm fo ps st) =
      fold (\<lambda>(symbol, prefix) books.
                   case map_of mds symbol of
                     None \<Rightarrow> books
                   | Some md \<Rightarrow>
                       AList.update symbol (fo (md_yes_token md), fo (md_no_token md)) books)
                 CRYPTO_MARKETS (orderbooks st)"
    by (simp add: refresh_market_data_def Let_def mds_def)
  show "map_of (market_data (refresh_market_data fm fo ps st)) k = fresh_market fm ps k"
    using m md by simp
  show "map_of (orderbooks (refresh_market_data fm fo ps st)) k = fresh_books fm fo ps k"
    unfolding ob
    by (subst fold_books [OF distinct_markets])
       (simp add: m fresh_books_def fresh_market_def assms(2) split: option.splits)
qed

lemma refresh_fields:
  "current_period_start (refresh_market_data fm fo ps st) = current_period_start st"
  "period_transitions (refresh_market_data fm fo ps st) = period_transitions st"
  "current_period_start (refresh_orderbooks_only fo st) = current_period_start st"
  "period_transitions (refresh_orderbooks_only fo st) = period_transitions st"
  "market_data (refresh_orderbooks_only fo st) = market_data st"
  by (simp_all add: refresh_market_data_def refresh_orderbooks_only_def Let_def)

lemma period_floor_le: "((n::int) div 300) * 300 \<le> n"
proof -
  have "n = (n div 300) * 300 + n mod 300" by simp
  moreover have "0 \<le> n mod 300" by simp
  ultimately show ?thesis by linarith
qed

lemma period_floor_ge:
  assumes "(k::int) * 300 \<le> n"
  shows "k * 300 \<le> (n div 300) * 300"
proof -
  have "(k * 300) div 300 \<le> n div 300"
    using assms by (rule zdiv_mono1) simp
  then have "k \<le> n div 300" by simp
  then show ?thesis by simp
qed

lemma straddle:
  assumes "0 \<le> t1" and "t1 < real_of_int (k * PERIOD_SECS)" and "real_of_int (k * PERIOD_SECS) \<le> t2"
  shows "get_period_start t1 < get_period_start t2"
proof -
  have t2: "0 \<le> t2" using assms by linarith
  have a: "\<lfloor>t1\<rfloor> < k * 300" using assms(2) by (simp add: PERIOD_SECS_def floor_less_iff)
  have b: "k * 300 \<le> \<lfloor>t2\<rfloor>" using assms(3) by (simp add: PERIOD_SECS_def le_floor_iff)
  have "(\<lfloor>t1\<rfloor> div 300) * 300 < k * 300"
    using period_floor_le [of "\<lfloor>t1\<rfloor>"] a by linarith
  also have "k * 300 \<le> (\<lfloor>t2\<rfloor> div 300) * 300"
    using b by (rule period_floor_ge)
  finally show ?thesis
    using assms(1) t2 by (simp add: get_period_start_def py_int_def PERIOD_SECS_def Let_def)
qed


lemma refresh_markets_from_empty:
  assumes "market_data st = []"
  shows "map_of (market_data (refresh_market_data fm fo ps st)) k = fresh_market fm ps k"
  using assms
  by (simp add: refresh_market_data_def Let_def fold_markets [OF distinct_markets]
        fresh_market_def split: option.splits)

text \<open>
  Claim C8, as the code has it. If the floored period value differs from the stored
  \<open>current_period_start\<close> (as it does when two consecutive scan timestamps straddle a
  multiple of the period length), the scan increments the period-transition counter by
  exactly one and clears the cached metadata and order books of all symbols: after the
  refetch, every symbol holds exactly what the provider has for the new period, and a
  symbol the provider does not list holds nothing. If the floor value is unchanged, the
  counter is untouched; the metadata cache is untouched when it is not empty, and is
  fetched from the provider when it is empty.
\<close>

theorem period_rotation:
  "(get_period_start now \<noteq> current_period_start st \<longrightarrow>
      period_transitions (run_scan_rotation fm fo now st) = period_transitions st + 1
    \<and> current_period_start (run_scan_rotation fm fo now st) = get_period_start now
    \<and> (\<forall>symbol. map_of (market_data (run_scan_rotation fm fo now st)) symbol
                   = fresh_market fm (get_period_start now) symbol)
    \<and> (\<forall>symbol. map_of (orderbooks (run_scan_rotation fm fo now st)) symbol
                   = fresh_books fm fo (get_period_start now) symbol))
   \<and> (get_period_start now = current_period_start st \<longrightarrow>
      period_transitions (run_scan_rotation fm fo now st) = period_transitions st
    \<and> current_period_start (run_scan_rotation fm fo now st) = current_period_start st
    \<and> (market_data st \<noteq> [] \<longrightarrow>
          market_data (run_scan_rotation fm fo now st) = market_data st)
    \<and> (market_data st = [] \<longrightarrow>
          (\<forall>symbol. map_of (market_data (run_scan_rotation fm fo now st)) symbol
                     = fresh_market fm (get_period_start now) symbol)))
   \<and> (0 \<le> t1 \<and> t1 < real_of_int (k * PERIOD_SECS) \<and> real_of_int (k * PERIOD_SECS) \<le> now
        \<and> current_period_start st = get_period_start t1 \<longrightarrow>
      period_transitions (run_scan_rotation fm fo now st) = period_transitions st + 1)"
proof -
  have rot: "period_transitions (run_scan_rotation fm fo now st) = period_transitions st + 1
    \<and> current_period_start (run_scan_rotation fm fo now st) = get_period_start now
    \<and> (\<forall>symbol. map_of (market_data (run_scan_rotation fm fo now st)) symbol
                   = fresh_market fm (get_period_start now) symbol)
    \<and> (\<forall>symbol. map_of (orderbooks (run_scan_rotation fm fo now st)) symbol
                   = fresh_books fm fo (get_period_start now) symbol)"
    if "get_period_start now \<noteq> current_period_start st"
    using that
    by (simp add: run_scan_rotation_def Let_def refresh_fields refresh_from_empty)
  have same: "period_transitions (run_scan_rotation fm fo now st) = period_transitions st
    \<and> current_period_start (run_scan_rotation fm fo now st) = current_period_start st
    \<and> (market_data st \<noteq> [] \<longrightarrow>
          market_data (run_scan_rotation fm fo now st) = market_data st)
    \<and> (market_data st = [] \<longrightarrow>
          (\<forall>symbol. map_of (market_data (run_scan_rotation fm fo now st)) symbol
                     = fresh_market fm (get_period_start now) symbol))"
    if "get_period_start now = current_period_start st"
    using that
    by (simp add: run_scan_rotation_def Let_def refresh_fields refresh_markets_from_empty)
  have str: "period_transitions (run_scan_rotation fm fo now st) = period_transitions st + 1"
    if "0 \<le> t1 \<and> t1 < real_of_int (k * PERIOD_SECS) \<and> real_of_int (k * PERIOD_SECS) \<le> now
        \<and> current_period_start st = get_period_start t1"
  proof -
    from that have "get_period_start t1 < get_period_start now"
      using straddle [of t1 k now] by blast
    with that have "get_period_start now \<noteq> current_period_start st" by simp
    then show ?thesis using rot by blast
  qed
  from rot same str show ?thesis by blast
qed

lemma example_period_starts:
  "get_period_start 310 = 300" "get_period_start 599 = 300" "get_period_start 601 = 600"
  by (simp_all add: get_period_start_def py_int_def PERIOD_SECS_def Let_def)

text \<open>
  With an unchanged floor value and an empty metadata cache, the scan fetches metadata:
  the cache is not left untouched.
\<close>

theorem empty_cache_refetched:
  "get_period_start 310 = current_period_start idle_session
   \<and> market_data (run_scan_rotation btc_provider no_books 310 idle_session)
       = [(''BTC'', example_market)]
   \<and> market_data (run_scan_rotation btc_provider no_books 310 idle_session)
       \<noteq> market_data idle_session"
  by (simp add: example_period_starts run_scan_rotation_def idle_session_def
        refresh_market_data_def CRYPTO_MARKETS_def btc_provider_def Let_def)

theorem period_rotation_witness:
  "get_period_start 601 \<noteq> current_period_start warm_session
   \<and> period_transitions (run_scan_rotation btc_provider no_books 601 warm_session) = 2
   \<and> current_period_start (run_scan_rotation btc_provider no_books 601 warm_session) = 600
   \<and> map_of (market_data (run_scan_rotation btc_provider no_books 601 warm_session)) ''BTC''
        = Some example_market
   \<and> map_of (market_data (run_scan_rotation btc_provider no_books 601 warm_session)) ''ETH'' = None
   \<and> map_of (orderbooks (run_scan_rotation btc_provider no_books 601 warm_session)) ''ETH'' = None
   \<and> get_period_start 310 = current_period_start warm_session
   \<and> market_data warm_session \<noteq> []
   \<and> period_transitions (run_scan_rotation btc_provider no_books 310 warm_session) = 1
   \<and> market_data (run_scan_rotation btc_provider no_books 310 warm_session)
        = market_data warm_session
   \<and> market_data idle_session = []
   \<and> map_of (market_data (run_scan_rotation btc_provider no_books 310 idle_session)) ''BTC''
        = Some example_market
   \<and> (0::real) \<le> 599 \<and> (599::real) < real_of_int (2 * PERIOD_SECS)
   \<and> real_of_int (2 * PERIOD_SECS) \<le> (601::real)
   \<and> current_period_start warm_session = get_period_start 599"
proof -
  have f: "fresh_market btc_provider ps ''BTC'' = Some example_market"
    "fresh_market btc_provider ps ''ETH'' = None"
    "fresh_books btc_provider no_books ps ''ETH'' = None" for ps
    by (simp_all add: fresh_market_def fresh_books_def CRYPTO_MARKETS_def btc_provider_def)
  have w: "current_period_start warm_session = 300" "period_transitions warm_session = 1"
    "market_data warm_session \<noteq> []" "current_period_start idle_session = 300"
    "market_data idle_session = []"
    by (simp_all add: warm_session_def idle_session_def)
  have p: "(599::real) < real_of_int (2 * PERIOD_SECS)" "real_of_int (2 * PERIOD_SECS) \<le> (601::real)"
    by (simp_all add: PERIOD_SECS_def)
  note r601 = period_rotation [where now = 601 and st = warm_session and fm = btc_provider
        and fo = no_books and ?t1.0 = 599 and k = 2]
  note r310 = period_rotation [where now = 310 and st = warm_session and fm = btc_provider
        and fo = no_books and ?t1.0 = 599 and k = 2]
  note i310 = period_rotation [where now = 310 and st = idle_session and fm = btc_provider
        and fo = no_books and ?t1.0 = 599 and k = 2]
  have ne: "get_period_start 601 \<noteq> current_period_start warm_session"
    by (simp add: example_period_starts w)
  have eq: "get_period_start 310 = current_period_start warm_session"
    "get_period_start 310 = current_period_start idle_session"
    "current_period_start warm_session = get_period_start 599"
    by (simp_all add: example_period_starts w)
  from r601 ne have a:
    "period_transitions (run_scan_rotation btc_provider no_books 601 warm_session)
       = period_transitions warm_session + 1"
    "current_period_start (run_scan_rotation btc_provider no_books 601 warm_session)
       = get_period_start 601"
    "map_of (market_data (run_scan_rotation btc_provider no_books 601 warm_session)) ''BTC''
       = fresh_market btc_provider (get_period_start 601) ''BTC''"
    "map_of (market_data (run_scan_rotation btc_provider no_books 601 warm_session)) ''ETH''
       = fresh_market btc_provider (get_period_start 601) ''ETH''"
    "map_of (orderbooks (run_scan_rotation btc_provider no_books 601 warm_session)) ''ETH''
       = fresh_books btc_provider no_books (get_period_start 601) ''ETH''"
    by blast+
  from r310 eq(1) w(3) have b:
    "period_transitions (run_scan_rotation btc_provider no_books 310 warm_session)
       = period_transitions warm_session"
    "market_data (run_scan_rotation btc_provider no_books 310 warm_session)
       = market_data warm_session"
    by blast+
  from i310 eq(2) w(5) have c:
    "map_of (market_data (run_scan_rotation btc_provider no_books 310 idle_session)) ''BTC''
       = fresh_market btc_provider (get_period_start 310) ''BTC''"
    by blast
  show ?thesis
    using ne eq a b c p by (simp add: f w example_period_starts)
qed

section \<open>The mispriced-order detector (C4, C5, C9)\<close>

text \<open>
  The dict \<open>price_vol\<close> built by the loop: its value at a price is the level's total
  size, its keys are the prices of the list, and a key stands before another exactly when
  its price is seen first in the list.
\<close>

lemma price_vol_get_update:
  "price_vol_get (AList.update p v pv) q = (if q = p then v else price_vol_get pv q)"
  by (simp add: price_vol_get_def update_conv')

lemma fold_price_vol_get:
  "price_vol_get (fold (\<lambda>(p, s) pv. AList.update p (price_vol_get pv p + s) pv) es pv0) q =
     price_vol_get pv0 q + level_size es q"
proof (induction es arbitrary: pv0)
  case Nil
  then show ?case by (simp add: level_size_def)
next
  case (Cons e es)
  obtain p s where e: "e = (p, s)" by (cases e)
  show ?case
    unfolding e by (simp add: Cons.IH price_vol_get_update level_size_def)
qed

lemma update_key_set: "fst ` set (AList.update k v al) = insert k (fst ` set al)"
proof -
  have "set (map fst (AList.update k v al)) = insert k (set (map fst al))"
    by (auto simp: update_keys)
  then show ?thesis by simp
qed

lemma fold_price_vol_keys:
  "fst ` set (fold (\<lambda>(p, s) pv. AList.update p (price_vol_get pv p + s) pv) es pv0) =
     fst ` set pv0 \<union> fst ` set es"
proof (induction es arbitrary: pv0)
  case Nil
  then show ?case by simp
next
  case (Cons e es)
  obtain p s where e: "e = (p, s)" by (cases e)
  show ?case
    unfolding e by (simp add: Cons.IH update_key_set)
qed

lemma takeWhile_insert_seen:
  assumes "p \<in> set ks"
  shows "set (takeWhile (\<lambda>x. x \<noteq> c) (ks @ p # rest)) = set (takeWhile (\<lambda>x. x \<noteq> c) (ks @ rest))"
proof (cases "c \<in> set ks")
  case True
  then show ?thesis by (simp add: takeWhile_append1)
next
  case False
  then have k: "\<And>x. x \<in> set ks \<Longrightarrow> x \<noteq> c" by blast
  from False assms have "p \<noteq> c" by blast
  then show ?thesis
    using assms by (auto simp: takeWhile_append2 [OF k])
qed

lemma fold_price_vol_order:
  "set (takeWhile (\<lambda>x. x \<noteq> c)
         (map fst (fold (\<lambda>(p, s) pv. AList.update p (price_vol_get pv p + s) pv) es pv0))) =
   set (takeWhile (\<lambda>x. x \<noteq> c) (map fst pv0 @ map fst es))"
proof (induction es arbitrary: pv0)
  case Nil
  then show ?case by simp
next
  case (Cons e es)
  obtain p s where e: "e = (p, s)" by (cases e)
  show ?case
  proof (cases "p \<in> set (map fst pv0)")
    case True
    then show ?thesis
      unfolding e using takeWhile_insert_seen [OF True, of c "map fst es"]
      by (simp add: Cons.IH update_keys)
  next
    case False
    then show ?thesis
      unfolding e by (simp add: Cons.IH update_keys)
  qed
qed

lemma fold_max_key:
  fixes f :: "'a \<Rightarrow> real"
  defines "g \<equiv> (\<lambda>y best. if f best < f y then y else best)"
  shows "fold g xs b \<in> set (b # xs)
       \<and> (\<forall>y\<in>set (b # xs). f y \<le> f (fold g xs b))
       \<and> (\<forall>y\<in>set (takeWhile (\<lambda>z. z \<noteq> fold g xs b) (b # xs)). f y < f (fold g xs b))"
proof (induction xs arbitrary: b)
  case Nil
  then show ?case by simp
next
  case (Cons a xs)
  define b' where "b' = g a b"
  define r where "r = fold g xs b'"
  have r: "fold g (a # xs) b = r" by (simp add: r_def b'_def)
  from Cons.IH [of b'] have
    m: "r \<in> set (b' # xs)" and
    le: "\<forall>y\<in>set (b' # xs). f y \<le> f r" and
    lt: "\<forall>y\<in>set (takeWhile (\<lambda>z. z \<noteq> r) (b' # xs)). f y < f r"
    by (simp_all add: r_def)
  have b'cases: "(b' = a \<and> f b < f a) \<or> (b' = b \<and> f a \<le> f b)"
    by (auto simp: b'_def g_def)
  have fb': "f b' \<le> f r" using le by simp
  have strict: "f b' < f r" if "r \<noteq> b'" using lt that by simp
  have 1: "r \<in> set (b # a # xs)" using m b'cases by auto
  have 2: "\<forall>y\<in>set (b # a # xs). f y \<le> f r"
    using le fb' b'cases by auto
  have 3: "\<forall>y\<in>set (takeWhile (\<lambda>z. z \<noteq> r) (b # a # xs)). f y < f r"
  proof (cases "r = b")
    case True
    then show ?thesis by simp
  next
    case False
    have fb: "f b < f r"
      using b'cases
    proof
      assume "b' = a \<and> f b < f a"
      with fb' show ?thesis by simp
    next
      assume "b' = b \<and> f a \<le> f b"
      with strict False show ?thesis by simp
    qed
    show ?thesis
    proof (cases "r = a")
      case True
      with False fb show ?thesis by simp
    next
      case ra: False
      have fa: "f a < f r"
        using b'cases
      proof
        assume "b' = a \<and> f b < f a"
        with strict ra show ?thesis by simp
      next
        assume "b' = b \<and> f a \<le> f b"
        with fb show ?thesis by simp
      qed
      have rest: "\<forall>y\<in>set (takeWhile (\<lambda>z. z \<noteq> r) xs). f y < f r"
        using lt b'cases False ra by auto
      from False ra fb fa rest show ?thesis by simp
    qed
  qed
  from 1 2 3 show ?case unfolding r by blast
qed

lemma py_max_key_first:
  assumes "py_max_key f ks = Inr c"
  shows "c \<in> set ks \<and> (\<forall>y\<in>set ks. f y \<le> f c)
       \<and> (\<forall>y\<in>set (takeWhile (\<lambda>z. z \<noteq> c) ks). f y < f c)"
proof (cases ks)
  case Nil
  with assms show ?thesis by simp
next
  case (Cons b xs)
  with assms have c: "c = fold (\<lambda>y best. if f best < f y then y else best) xs b" by simp
  show ?thesis
    unfolding Cons c using fold_max_key [of f xs b] by blast
qed

lemma cluster_price_defined:
  assumes "entries \<noteq> []"
  shows "\<exists>c. cluster_price entries = Inr c"
proof -
  have "fst ` set (price_vol_of entries) = fst ` set entries"
    unfolding price_vol_of_def by (simp add: fold_price_vol_keys)
  with assms have "map fst (price_vol_of entries) \<noteq> []" by auto
  then show ?thesis
    by (cases "map fst (price_vol_of entries)") (simp_all add: cluster_price_def Let_def)
qed

lemma cluster_price_first_max:
  assumes "cluster_price entries = Inr c"
  shows "c \<in> fst ` set entries
       \<and> (\<forall>q\<in>fst ` set entries. level_size entries q \<le> level_size entries c)
       \<and> (\<forall>q\<in>set (takeWhile (\<lambda>z. z \<noteq> c) (map fst entries)).
             level_size entries q < level_size entries c)"
proof -
  have "fst ` set (price_vol_of entries) = fst ` set entries"
    unfolding price_vol_of_def by (simp add: fold_price_vol_keys)
  then have k: "set (map fst (price_vol_of entries)) = fst ` set entries"
    by simp
  have e: "price_vol_get [] q = 0" for q
    by (simp add: price_vol_get_def)
  have v: "price_vol_get (price_vol_of entries) q = level_size entries q" for q
    unfolding price_vol_of_def by (simp add: fold_price_vol_get e)
  have t: "set (takeWhile (\<lambda>z. z \<noteq> c) (map fst (price_vol_of entries)))
         = set (takeWhile (\<lambda>z. z \<noteq> c) (map fst entries))"
    unfolding price_vol_of_def using fold_price_vol_order [of c entries "[]"] by simp
  from assms have "py_max_key (price_vol_get (price_vol_of entries)) (map fst (price_vol_of entries)) = Inr c"
    by (simp add: cluster_price_def Let_def)
  from py_max_key_first [OF this] show ?thesis
    unfolding k t by (simp add: v)
qed





lemma flag_entries_sound:
  "flag_entries c ratio min_size es = Inr out \<Longrightarrow>
   \<forall>m\<in>set out. m_cluster_price m = c \<and> m_price m < c - 0.10
        \<and> m_est_profit_per_share m = c - m_price m
        \<and> m_discount_pct m = (c - m_price m) / c * 100"
proof (induction es arbitrary: out)
  case Nil
  then show ?case by simp
next
  case (Cons e es)
  obtain p s where e: "e = (p, s)" by (cases e)
  from Cons.prems show ?case
    unfolding e
    by (auto simp: Let_def ebind_eq_Inr split: if_splits dest!: Cons.IH)
qed

lemma find_mispriced_orders_Inr:
  assumes "find_mispriced_orders flt asks ratio min_size = Inr out"
  shows "out = [] \<or> (\<exists>entries c flagged. ask_entries flt asks = Inr entries
           \<and> cluster_price entries = Inr c
           \<and> flag_entries c ratio min_size entries = Inr flagged
           \<and> out = sort_key m_price flagged)"
  using assms
  by (auto simp: find_mispriced_orders_def ebind_eq_Inr split: if_splits sum.splits)




lemma example_ask_entries:
  "ask_entries flt example_asks = Inr example_entries"
  "ask_entries flt tie_asks = Inr tie_entries"
  by (simp_all add: ask_entries_def example_asks_def example_entries_def tie_asks_def
        tie_entries_def level_def)

lemma example_cluster_prices:
  "cluster_price example_entries = Inr 0.97"
  "cluster_price tie_entries = Inr 0.97"
  by (simp_all add: cluster_price_def price_vol_of_def price_vol_get_def example_entries_def
        tie_entries_def)



lemma find_mispriced_orders_sound:
  assumes "find_mispriced_orders flt asks ratio min_size = Inr out" and "m \<in> set out"
  shows "m_price m < m_cluster_price m - 0.10
       \<and> m_est_profit_per_share m = m_cluster_price m - m_price m
       \<and> m_est_profit_per_share m > 0.10
       \<and> (0 < m_cluster_price m \<longrightarrow> 0 < m_discount_pct m)
       \<and> (\<exists>entries. ask_entries flt asks = Inr entries
             \<and> cluster_price entries = Inr (m_cluster_price m))"
proof -
  from assms(2) have "out \<noteq> []" by auto
  with find_mispriced_orders_Inr [OF assms(1)] obtain entries c flagged where
    e: "ask_entries flt asks = Inr entries" and c: "cluster_price entries = Inr c" and
    f: "flag_entries c ratio min_size entries = Inr flagged" and
    o: "out = sort_key m_price flagged"
    by blast
  from assms(2) o have "m \<in> set flagged" by simp
  with flag_entries_sound [OF f] have
    mc: "m_cluster_price m = c" and lt: "m_price m < c - 0.10" and
    ep: "m_est_profit_per_share m = c - m_price m" and
    dp: "m_discount_pct m = (c - m_price m) / c * 100"
    by blast+
  have pos: "0 < m_discount_pct m" if "0 < c"
  proof -
    from lt have "0 < c - m_price m" by simp
    with that have "0 < (c - m_price m) / c" by simp
    then have "0 < (c - m_price m) / c * 100" by (rule mult_pos_pos) simp
    then show ?thesis unfolding dp .
  qed
  from mc lt ep pos e c show ?thesis by auto
qed

text \<open>
  Claim C4, as the code has it: for every ask list with at least 2 entries accepted by
  the scanner, the cluster price is a price of the list whose total size (entries grouped
  by exact price, sizes summed) is greatest; when several levels tie on total size, the
  level that is seen first in the ask list is chosen, so no tied level occurs in the list
  before the cluster price. It is the cluster price of every entry the scanner returns.
\<close>

theorem cluster_price_first_largest:
  assumes "ask_entries flt asks = Inr entries" and "2 \<le> length entries"
  shows "\<exists>c. cluster_price entries = Inr c
       \<and> c \<in> fst ` set entries
       \<and> (\<forall>q\<in>fst ` set entries. level_size entries q \<le> level_size entries c)
       \<and> (\<forall>q\<in>fst ` set entries. q \<noteq> c \<and> level_size entries q = level_size entries c \<longrightarrow>
              q \<notin> set (takeWhile (\<lambda>z. z \<noteq> c) (map fst entries)))
       \<and> (\<forall>ratio min_size out. find_mispriced_orders flt asks ratio min_size = Inr out \<longrightarrow>
              (\<forall>m\<in>set out. m_cluster_price m = c))"
proof -
  from assms(2) have "entries \<noteq> []" by auto
  then obtain c where c: "cluster_price entries = Inr c"
    using cluster_price_defined by blast
  note fm = cluster_price_first_max [OF c]
  have tie: "q \<notin> set (takeWhile (\<lambda>z. z \<noteq> c) (map fst entries))"
    if "level_size entries q = level_size entries c" for q
    using fm that by force
  have fld: "m_cluster_price m = c"
    if "find_mispriced_orders flt asks ratio min_size = Inr out" and "m \<in> set out"
    for ratio min_size out m
    using find_mispriced_orders_sound [OF that] assms(1) c by auto
  from c fm tie fld show ?thesis by blast
qed

theorem cluster_price_first_largest_witness:
  "ask_entries (\<lambda>s. None) tie_asks = Inr tie_entries \<and> 2 \<le> length tie_entries
   \<and> cluster_price tie_entries = Inr 0.97
   \<and> level_size tie_entries 0.04 = level_size tie_entries 0.97
   \<and> 0.04 \<notin> set (takeWhile (\<lambda>z. z \<noteq> 0.97) (map fst tie_entries))"
proof -
  have l: "2 \<le> length tie_entries" by (simp add: tie_entries_def)
  from cluster_price_first_largest [OF example_ask_entries(2) l, of "\<lambda>s. None"]
  obtain c where c: "cluster_price tie_entries = Inr c"
    and t: "\<forall>q\<in>fst ` set tie_entries. q \<noteq> c \<and> level_size tie_entries q = level_size tie_entries c \<longrightarrow>
              q \<notin> set (takeWhile (\<lambda>z. z \<noteq> c) (map fst tie_entries))"
    by blast
  from c have c97: "c = 0.97" by (simp add: example_cluster_prices)
  have s: "level_size tie_entries 0.04 = level_size tie_entries 0.97"
    by (simp add: level_size_def tie_entries_def)
  have m: "(0.04::real) \<in> fst ` set tie_entries" "(0.04::real) \<noteq> 0.97"
    by (simp_all add: tie_entries_def)
  from t m s have "0.04 \<notin> set (takeWhile (\<lambda>z. z \<noteq> 0.97) (map fst tie_entries))"
    unfolding c97 by blast
  with l s c c97 example_ask_entries(2) show ?thesis by simp
qed

text \<open>
  Asks 0.97 and 0.04 of equal size, 0.97 listed first: the cluster price is 0.97, not the
  lower 0.04, and the ask at 0.04 is flagged against it.
\<close>

theorem cluster_tie_keeps_first:
  "cluster_price tie_entries = Inr 0.97
   \<and> level_size tie_entries 0.04 = level_size tie_entries 0.97
   \<and> (0.04::real) < 0.97
   \<and> find_mispriced_orders (\<lambda>s. None) tie_asks 0.5 10 =
       Inr [\<lparr> m_price = 0.04, m_size = 100, m_cluster_price = 0.97, m_discount_pct = 9300 / 97,
               m_est_profit_per_share = 0.93 \<rparr>]"
  by (simp add: example_cluster_prices level_size_def tie_entries_def
        find_mispriced_orders_def tie_asks_def level_def ask_entries_def
        cluster_price_def price_vol_of_def price_vol_get_def)






end
